theory Spec2Isabelle
  imports Complex_Main "HOL-Library.Sublist"
begin

section \<open>The base class of the inference models (xinfer/models.py)\<close>

text \<open>
  The class \<^verbatim>\<open>BaseModel\<close> keeps a configuration (identifier, device, dtype) and three
  statistics fields, and offers a scoped timer, a counter update and an image loader.
  Python's \<^verbatim>\<open>int\<close> is \<^typ>\<open>int\<close>, Python's \<^verbatim>\<open>str\<close> is \<^typ>\<open>string\<close>, and a finite
  Python \<^verbatim>\<open>float\<close> is the \<^typ>\<open>real\<close> it denotes. The timer's difference, product and sum
  are taken in the reals; the division of the total by the counter, whose result the
  average latency is, is Python's division of a float by an int: the conversion of the
  int, which raises when the int is too large, and the quotient rounded to binary64.
  Every \<^verbatim>\<open>raise\<close> is a value \<open>Inl e\<close> of a sum type.
\<close>

subsection \<open>Exceptions and values\<close>

text \<open>
  \<open>ValueError\<close> is the exception the class raises itself (the specification calls it
  \<^verbatim>\<open>InvalidConfiguration\<close> at construction and \<^verbatim>\<open>InvalidInput\<close> in the image loader).
  A \<^verbatim>\<open>ValueError\<close> raised inside an \<^verbatim>\<open>except\<close> clause carries the exception being handled
  as its context: that is \<open>ValueError_handling\<close>, with the message and the handled
  exception. \<open>FileNotFoundError\<close> is the one exception of the collaborators that the
  class catches; \<open>OtherException\<close> stands for every other exception that a collaborator
  or the interpreter raises (a network failure, an undecodable image, a path through a
  regular file, an int too large for a float), named by a description.
\<close>

datatype exn =
    ValueError string
  | ValueError_handling string exn
  | FileNotFoundError string
  | OtherException string

fun is_ValueError :: "exn \<Rightarrow> bool" where
  "is_ValueError (ValueError m) = True"
| "is_ValueError (ValueError_handling m e) = True"
| "is_ValueError (FileNotFoundError f) = False"
| "is_ValueError (OtherException d) = False"

datatype torch_dtype = torch_float32 | torch_float16 | torch_bfloat16

text \<open>The values a caller can pass where an image reference is expected.\<close>

datatype py_value = PyStr string | PyInt int | PyNone | PyList "py_value list"

fun is_str :: "py_value \<Rightarrow> bool" where
  "is_str (PyStr s) = True"
| "is_str (PyInt i) = False"
| "is_str PyNone = False"
| "is_str (PyList xs) = False"

subsection \<open>The instance\<close>

record BaseModel =
  model_id :: string
  device :: string
  dtype :: torch_dtype
  num_inferences :: int
  total_inference_time :: real
  average_latency :: real

subsection \<open>Construction\<close>

text \<open>
  \<^verbatim>\<open>logger.info\<close> appends one entry to the log; the log is threaded through the
  constructor so that the order of logging and validation is the source's.
\<close>

definition logger_info :: "string \<Rightarrow> string list \<Rightarrow> string list" where
  "logger_info msg entries = entries @ [msg]"

definition dtype_map :: "(string \<times> torch_dtype) list" where
  "dtype_map =
     [(''float32'', torch_float32),
      (''float16'', torch_float16),
      (''bfloat16'', torch_bfloat16)]"

definition dtype_error_message :: string where
  "dtype_error_message =
     ''dtype must be one of 'float32', 'float16', or 'bfloat16'' @ [CHR 0x27]"

text \<open>
  \<^verbatim>\<open>BaseModel.__init__\<close>: the three log entries, then the membership test on
  \<^verbatim>\<open>dtype_map\<close>. The result is the log and either the exception or the instance; the
  field \<^verbatim>\<open>dtype\<close> of a returned instance holds the mapped value.
\<close>

definition BaseModel_init ::
  "string \<Rightarrow> string \<Rightarrow> string \<Rightarrow> string list \<Rightarrow> string list \<times> (exn + BaseModel)" where
  "BaseModel_init model_id0 device0 dtype0 log0 =
     (let log1 = logger_info (''Model: '' @ model_id0) log0;
          log2 = logger_info (''Device: '' @ device0) log1;
          log3 = logger_info (''Dtype: '' @ dtype0) log2
      in case map_of dtype_map dtype0 of
           None \<Rightarrow> (log3, Inl (ValueError dtype_error_message))
         | Some d \<Rightarrow>
             (log3,
              Inr \<lparr>model_id = model_id0, device = device0, dtype = d,
                   num_inferences = 0, total_inference_time = 0, average_latency = 0\<rparr>))"

subsection \<open>The scoped timer\<close>


definition track_inference_time_finally :: "real \<Rightarrow> real \<Rightarrow> BaseModel \<Rightarrow> BaseModel" where
  "track_inference_time_finally start_time end_time self =
     self\<lparr>total_inference_time :=
            total_inference_time self + (end_time - start_time) * 1000\<rparr>"


subsection \<open>Dividing a float by an int\<close>

text \<open>
  Binary64 has 53 significant bits and exponents from \<open>-1022\<close>. Around a real \<open>x\<close> that is
  not zero its values are the multiples of \<open>binary64_ulp x\<close>, and \<open>round_binary64\<close> takes
  the nearest one, the even one of two that are equally near.
\<close>

definition round_half_even :: "real \<Rightarrow> int" where
  "round_half_even y =
     (let f = \<lfloor>y\<rfloor>; d = y - of_int f
      in if d < 1 / 2 then f else if 1 / 2 < d then f + 1 else if even f then f else f + 1)"

definition binary64_ulp :: "real \<Rightarrow> real" where
  "binary64_ulp x = 2 powr (of_int (max \<lfloor>log 2 \<bar>x\<bar>\<rfloor> (- 1022)) - 52)"

definition round_binary64 :: "real \<Rightarrow> real" where
  "round_binary64 x =
     (if x = 0 then 0 else of_int (round_half_even (x / binary64_ulp x)) * binary64_ulp x)"

text \<open>
  The conversion of an int to a float raises \<^verbatim>\<open>OverflowError\<close> when the int rounds to a
  magnitude beyond the largest binary64 value, \<open>2 ^ 1024 - 2 ^ 971\<close>: that is from the
  midpoint \<open>2 ^ 1024 - 2 ^ 970\<close> on.
\<close>

definition float_int_limit :: int where
  "float_int_limit = 2 ^ 1024 - 2 ^ 970"

definition int_too_large :: exn where
  "int_too_large = OtherException ''OverflowError: int too large to convert to float''"

definition float_of_int :: "int \<Rightarrow> exn + real" where
  "float_of_int n =
     (if float_int_limit \<le> \<bar>n\<bar> then Inl int_too_large
      else Inr (round_binary64 (of_int n)))"

text \<open>
  \<^verbatim>\<open>x / n\<close> for a float \<open>x\<close> and an int \<open>n\<close>: the int is converted, then the floats are
  divided. A finite \<open>x\<close> divided by a converted int that is not zero stays in range.
\<close>

definition float_truediv :: "real \<Rightarrow> int \<Rightarrow> exn + real" where
  "float_truediv x n =
     (case float_of_int n of
        Inl e \<Rightarrow> Inl e
      | Inr d \<Rightarrow>
          if d = 0 then Inl (OtherException ''ZeroDivisionError: float division by zero'')
          else Inr (round_binary64 (x / d)))"

subsection \<open>The counter\<close>

text \<open>
  Line 64 writes the counter; lines 65 to 69 evaluate the conditional expression and
  then write the average. When the division raises, the counter is written already and
  the average is not written.
\<close>

definition update_inference_count :: "int \<Rightarrow> BaseModel \<Rightarrow> (exn + unit) \<times> BaseModel" where
  "update_inference_count count self =
     (let self1 = self\<lparr>num_inferences := num_inferences self + count\<rparr>
      in if num_inferences self1 \<noteq> 0
         then (case float_truediv (total_inference_time self1) (num_inferences self1) of
                 Inl e \<Rightarrow> (Inl e, self1)
               | Inr q \<Rightarrow> (Inr (), self1\<lparr>average_latency := q\<rparr>))
         else (Inr (), self1\<lparr>average_latency := 0\<rparr>))"

subsection \<open>Sequences of statistics updates\<close>

text \<open>
  The two operations that write the statistics of an existing instance: the close of a
  timed region, with the two clock readings, and the counter update, with its count.
  The instance is taken as the call leaves it, whether the call returns or raises.
\<close>

datatype update = TimedRegionClosed real real | CountUpdated int

fun apply_update :: "BaseModel \<Rightarrow> update \<Rightarrow> BaseModel" where
  "apply_update self (TimedRegionClosed start_time end_time) =
     track_inference_time_finally start_time end_time self"
| "apply_update self (CountUpdated count) = snd (update_inference_count count self)"

definition apply_updates :: "BaseModel \<Rightarrow> update list \<Rightarrow> BaseModel" where
  "apply_updates self us = foldl apply_update self us"

text \<open>
  What the callers are held to: the performance counter does not run backwards, and a
  count is a positive integer.
\<close>

fun admissible :: "update \<Rightarrow> bool" where
  "admissible (TimedRegionClosed start_time end_time) = (start_time \<le> end_time)"
| "admissible (CountUpdated count) = (0 < count)"

text \<open>The invariant of the two accumulators.\<close>

definition nonneg_stats :: "BaseModel \<Rightarrow> bool" where
  "nonneg_stats self = (0 \<le> num_inferences self \<and> 0 \<le> total_inference_time self)"

subsection \<open>Loading images\<close>

text \<open>
  The collaborators of \<^verbatim>\<open>parse_images\<close>: \<^verbatim>\<open>requests.get(url, stream=True).raw\<close>,
  \<^verbatim>\<open>Image.open\<close> on that stream, \<^verbatim>\<open>Image.open\<close> on a path, and the
  conversion to RGB. Each one returns its result or raises.
\<close>

record ('r, 'i) collaborators =
  requests_get_raw :: "string \<Rightarrow> exn + 'r"
  Image_open_stream :: "'r \<Rightarrow> exn + 'i"
  Image_open :: "string \<Rightarrow> exn + 'i"
  convert_RGB :: "'i \<Rightarrow> exn + 'i"

fun and_then :: "exn + 'a \<Rightarrow> ('a \<Rightarrow> exn + 'b) \<Rightarrow> exn + 'b" where
  "and_then (Inl e) f = Inl e"
| "and_then (Inr v) f = f v"

text \<open>\<^verbatim>\<open>str.startswith\<close> with a tuple of prefixes.\<close>

definition startswith :: "string \<Rightarrow> string list \<Rightarrow> bool" where
  "startswith s ps = list_ex (\<lambda>p. take (length p) s = p) ps"

definition open_url :: "('r, 'i) collaborators \<Rightarrow> string \<Rightarrow> exn + 'i" where
  "open_url io image_path =
     and_then (requests_get_raw io image_path)
       (\<lambda>raw. and_then (Image_open_stream io raw) (convert_RGB io))"

definition open_local :: "('r, 'i) collaborators \<Rightarrow> string \<Rightarrow> exn + 'i" where
  "open_local io image_path =
     (case and_then (Image_open io image_path) (convert_RGB io) of
        Inl (FileNotFoundError f) \<Rightarrow>
          Inl (ValueError_handling (''Local file not found: '' @ image_path)
                 (FileNotFoundError f))
      | Inl (ValueError m) \<Rightarrow> Inl (ValueError m)
      | Inl (ValueError_handling m e) \<Rightarrow> Inl (ValueError_handling m e)
      | Inl (OtherException d) \<Rightarrow> Inl (OtherException d)
      | Inr img \<Rightarrow> Inr img)"

text \<open>Lines 120 to 129: one reference, one image.\<close>

definition load_image :: "('r, 'i) collaborators \<Rightarrow> string \<Rightarrow> exn + 'i" where
  "load_image io image_path =
     (if startswith image_path [''http://'', ''https://'']
      then open_url io image_path
      else open_local io image_path)"

definition not_a_string_message :: string where
  "not_a_string_message = ''Input must be a string (local path or URL)''"

text \<open>The body of the loop, lines 117 to 129: the type test, then the load.\<close>

fun parse_image :: "('r, 'i) collaborators \<Rightarrow> py_value \<Rightarrow> exn + 'i" where
  "parse_image io (PyStr image_path) = load_image io image_path"
| "parse_image io (PyInt i) = Inl (ValueError not_a_string_message)"
| "parse_image io PyNone = Inl (ValueError not_a_string_message)"
| "parse_image io (PyList xs) = Inl (ValueError not_a_string_message)"

text \<open>The loop: the first exception ends it, an image is appended otherwise.\<close>

fun parse_images_loop ::
  "('r, 'i) collaborators \<Rightarrow> py_value list \<Rightarrow> 'i list \<Rightarrow> exn + 'i list" where
  "parse_images_loop io [] parsed_images = Inr parsed_images"
| "parse_images_loop io (image_path # rest) parsed_images =
     (case parse_image io image_path of
        Inl e \<Rightarrow> Inl e
      | Inr img \<Rightarrow> parse_images_loop io rest (parsed_images @ [img]))"

text \<open>Lines 112 and 113: anything that is not a list becomes a one-element list.\<close>

fun as_list :: "py_value \<Rightarrow> py_value list" where
  "as_list (PyList xs) = xs"
| "as_list (PyStr s) = [PyStr s]"
| "as_list (PyInt i) = [PyInt i]"
| "as_list PyNone = [PyNone]"

definition parse_images :: "('r, 'i) collaborators \<Rightarrow> py_value \<Rightarrow> exn + 'i list" where
  "parse_images io images = parse_images_loop io (as_list images) []"

subsection \<open>Sample collaborators and instances\<close>

text \<open>
  A small world for running the loader: images are named by strings, the only reachable
  URL is \<^verbatim>\<open>https://h/b.png\<close>, and the working directory holds the regular files of
  \<open>sample_files\<close>, that is \<^verbatim>\<open>a.jpg\<close> alone. Opening a path that goes through a regular
  file raises \<^verbatim>\<open>NotADirectoryError\<close>, opening any other path that names no file raises
  \<^verbatim>\<open>FileNotFoundError\<close>, as the operating system has it.
\<close>

definition sample_files :: "(string \<times> string) list" where
  "sample_files = [(''a.jpg'', ''a-bytes'')]"

definition through_a_file :: "string \<Rightarrow> bool" where
  "through_a_file path =
     list_ex (\<lambda>name. take (length name + 1) path = name @ ''/'') (map fst sample_files)"

definition sample_io :: "(string, string) collaborators" where
  "sample_io =
     \<lparr>requests_get_raw =
        (\<lambda>url. if url = ''https://h/b.png'' then Inr ''b-bytes''
               else Inl (OtherException ''ConnectionError'')),
      Image_open_stream = (\<lambda>raw. Inr (''image of '' @ raw)),
      Image_open =
        (\<lambda>path. case map_of sample_files path of
                  Some bytes \<Rightarrow> Inr (''image of '' @ bytes)
                | None \<Rightarrow>
                    if through_a_file path then Inl (OtherException ''NotADirectoryError'')
                    else Inl (FileNotFoundError path)),
      convert_RGB = (\<lambda>img. Inr (''RGB '' @ img))\<rparr>"

definition sample_model :: BaseModel where
  "sample_model =
     \<lparr>model_id = ''m1'', device = ''cpu'', dtype = torch_float16,
      num_inferences = 0, total_inference_time = 0, average_latency = 0\<rparr>"




text \<open>An instance with ten milliseconds on the clock and nothing counted yet.\<close>

definition timed_model :: BaseModel where
  "timed_model = sample_model\<lparr>total_inference_time := 10\<rparr>"

section \<open>Properties\<close>

subsection \<open>Construction\<close>

lemma map_of_dtype_map:
  "map_of dtype_map p =
     (if p = ''float32'' then Some torch_float32
      else if p = ''float16'' then Some torch_float16
      else if p = ''bfloat16'' then Some torch_bfloat16
      else None)"
  by (simp add: dtype_map_def)

lemma BaseModel_init_log:
  "fst (BaseModel_init m d p log0) =
     log0 @ [''Model: '' @ m, ''Device: '' @ d, ''Dtype: '' @ p]"
  by (simp add: BaseModel_init_def logger_info_def Let_def split: option.split)

lemma dtype_error_message_names:
  "list_all (\<lambda>k. sublist k dtype_error_message) (map fst dtype_map)"
  by (simp add: dtype_map_def dtype_error_message_def sublist_Cons_right)

text \<open>
  C3. Construction succeeds exactly for the dtype strings \<^verbatim>\<open>float32\<close>, \<^verbatim>\<open>float16\<close> and
  \<^verbatim>\<open>bfloat16\<close>, and the instance then holds the mapped dtype and zeroed statistics. For
  every other string the result is the \<open>ValueError\<close> whose message names the three
  allowed values, and no instance is returned.
\<close>

theorem BaseModel_init_dtype:
  "snd (BaseModel_init m d p log0) =
     (if p = ''float32'' then
        Inr \<lparr>model_id = m, device = d, dtype = torch_float32,
             num_inferences = 0, total_inference_time = 0, average_latency = 0\<rparr>
      else if p = ''float16'' then
        Inr \<lparr>model_id = m, device = d, dtype = torch_float16,
             num_inferences = 0, total_inference_time = 0, average_latency = 0\<rparr>
      else if p = ''bfloat16'' then
        Inr \<lparr>model_id = m, device = d, dtype = torch_bfloat16,
             num_inferences = 0, total_inference_time = 0, average_latency = 0\<rparr>
      else Inl (ValueError dtype_error_message)) \<and>
   list_all (\<lambda>k. sublist k dtype_error_message) [''float32'', ''float16'', ''bfloat16'']"
proof
  show "snd (BaseModel_init m d p log0) =
     (if p = ''float32'' then
        Inr \<lparr>model_id = m, device = d, dtype = torch_float32,
             num_inferences = 0, total_inference_time = 0, average_latency = 0\<rparr>
      else if p = ''float16'' then
        Inr \<lparr>model_id = m, device = d, dtype = torch_float16,
             num_inferences = 0, total_inference_time = 0, average_latency = 0\<rparr>
      else if p = ''bfloat16'' then
        Inr \<lparr>model_id = m, device = d, dtype = torch_bfloat16,
             num_inferences = 0, total_inference_time = 0, average_latency = 0\<rparr>
      else Inl (ValueError dtype_error_message))"
    by (simp add: BaseModel_init_def Let_def map_of_dtype_map)
  show "list_all (\<lambda>k. sublist k dtype_error_message) [''float32'', ''float16'', ''bfloat16'']"
    using dtype_error_message_names by (simp add: dtype_map_def)
qed

text \<open>
  C10. For every dtype string, supported or not, the constructor has appended the three
  log entries (identifier, device, dtype) to the log by the time it validates the dtype:
  the log it leaves is the same whether it returns an instance or raises.
\<close>

theorem BaseModel_init_logs_first:
  "fst (BaseModel_init m d p log0) =
     log0 @ [''Model: '' @ m, ''Device: '' @ d, ''Dtype: '' @ p]"
  by (rule BaseModel_init_log)

theorem BaseModel_init_logs_first_witness:
  "BaseModel_init ''m1'' ''cpu'' ''int8'' [] =
     ([''Model: m1'', ''Device: cpu'', ''Dtype: int8''], Inl (ValueError dtype_error_message))"
proof -
  have "snd (BaseModel_init ''m1'' ''cpu'' ''int8'' []) = Inl (ValueError dtype_error_message)"
    by (simp add: BaseModel_init_def Let_def map_of_dtype_map)
  moreover have "fst (BaseModel_init ''m1'' ''cpu'' ''int8'' []) =
      [''Model: m1'', ''Device: cpu'', ''Dtype: int8'']"
    using BaseModel_init_logs_first [of "''m1''" "''cpu''" "''int8''" "[]"] by simp
  ultimately show ?thesis by (simp add: prod_eq_iff)
qed

subsection \<open>Dividing a float by an int\<close>

lemma binary64_ulp_pos: "0 < binary64_ulp x"
  by (simp add: binary64_ulp_def)

lemma binary64_ulp_eq:
  assumes "2 powr of_int e \<le> \<bar>x\<bar>" and "\<bar>x\<bar> < 2 powr (of_int e + 1)" and "- 1022 \<le> e"
  shows "binary64_ulp x = 2 powr (of_int e - 52)"
proof -
  have "(0::real) < 2 powr of_int e" by simp
  with assms(1) have "0 < \<bar>x\<bar>" by linarith
  then have "\<lfloor>log 2 \<bar>x\<bar>\<rfloor> = e"
    using assms(1,2) by (simp add: floor_log_eq_powr_iff)
  with assms(3) show ?thesis by (simp add: binary64_ulp_def)
qed

lemma binary64_ulp_le:
  assumes "1 \<le> \<bar>x\<bar>"
  shows "binary64_ulp x \<le> \<bar>x\<bar>"
proof -
  from assms have "0 \<le> log 2 \<bar>x\<bar>" by simp
  then have "0 \<le> \<lfloor>log 2 \<bar>x\<bar>\<rfloor>" by simp
  then have "binary64_ulp x = 2 powr (of_int \<lfloor>log 2 \<bar>x\<bar>\<rfloor> - 52)"
    by (simp add: binary64_ulp_def max_def)
  also have "\<dots> \<le> 2 powr log 2 \<bar>x\<bar>"
  proof (rule powr_mono)
    have "of_int \<lfloor>log 2 \<bar>x\<bar>\<rfloor> \<le> log 2 \<bar>x\<bar>" by (rule of_int_floor_le)
    then show "of_int \<lfloor>log 2 \<bar>x\<bar>\<rfloor> - 52 \<le> log 2 \<bar>x\<bar>" by linarith
  qed simp
  also have "\<dots> = \<bar>x\<bar>" using assms by simp
  finally show ?thesis .
qed

lemma round_half_even_nonzero:
  assumes "1 \<le> \<bar>y\<bar>"
  shows "round_half_even y \<noteq> 0"
proof -
  define f where "f = \<lfloor>y\<rfloor>"
  have lo: "of_int f \<le> y" and hi: "y < of_int f + 1"
    unfolding f_def by linarith+
  have r: "round_half_even y =
      (if y - of_int f < 1 / 2 then f
       else if 1 / 2 < y - of_int f then f + 1
       else if even f then f else f + 1)"
    by (simp add: round_half_even_def Let_def f_def)
  show ?thesis
  proof (cases "1 \<le> y")
    case True
    with hi have "0 < real_of_int f" by linarith
    then have "0 < f" by (simp only: of_int_0_less_iff)
    then have "1 \<le> f" by linarith
    then show ?thesis unfolding r by auto
  next
    case False
    with assms have y: "y \<le> - 1" by linarith
    with lo have "real_of_int f \<le> - 1" by linarith
    then have f1: "f \<le> - 1" by (metis of_int_le_iff of_int_minus of_int_1)
    show ?thesis
    proof (cases "f = - 1")
      case True
      with lo y have "y - of_int f = 0" by simp
      with True show ?thesis unfolding r by simp
    next
      case False
      with f1 have "f \<le> - 2" by linarith
      then show ?thesis unfolding r by auto
    qed
  qed
qed

lemma round_binary64_of_int_nonzero:
  assumes "m \<noteq> 0"
  shows "round_binary64 (of_int m) \<noteq> 0"
proof -
  from assms have "1 \<le> \<bar>m\<bar>" by linarith
  then have "real_of_int 1 \<le> real_of_int \<bar>m\<bar>" by (simp only: of_int_le_iff)
  then have x: "1 \<le> \<bar>real_of_int m\<bar>" by simp
  have u: "0 < binary64_ulp (of_int m)" by (rule binary64_ulp_pos)
  from binary64_ulp_le [OF x] u
  have "1 \<le> \<bar>real_of_int m\<bar> / binary64_ulp (of_int m)" by (simp add: le_divide_eq)
  with u have "1 \<le> \<bar>real_of_int m / binary64_ulp (of_int m)\<bar>" by simp
  then have "round_half_even (of_int m / binary64_ulp (of_int m)) \<noteq> 0"
    by (rule round_half_even_nonzero)
  with u assms show ?thesis by (simp add: round_binary64_def)
qed

lemma float_truediv_overflow:
  "float_int_limit \<le> \<bar>n\<bar> \<Longrightarrow> float_truediv x n = Inl int_too_large"
  by (simp add: float_truediv_def float_of_int_def)

lemma float_truediv_in_range:
  "n \<noteq> 0 \<Longrightarrow> \<not> float_int_limit \<le> \<bar>n\<bar> \<Longrightarrow>
     float_truediv x n = Inr (round_binary64 (x / round_binary64 (of_int n)))"
  by (simp add: float_truediv_def float_of_int_def round_binary64_of_int_nonzero)

lemma round_binary64_2: "round_binary64 2 = 2"
proof -
  have "binary64_ulp 2 = 2 powr (of_int 1 - 52)"
    by (rule binary64_ulp_eq) simp_all
  then have u: "binary64_ulp 2 = 1 / 2 ^ 51" by (simp add: powr_neg_numeral)
  show ?thesis unfolding round_binary64_def u
    by (simp add: round_half_even_def Let_def)
qed

lemma round_binary64_3: "round_binary64 3 = 3"
proof -
  have "binary64_ulp 3 = 2 powr (of_int 1 - 52)"
    by (rule binary64_ulp_eq) simp_all
  then have u: "binary64_ulp 3 = 1 / 2 ^ 51" by (simp add: powr_neg_numeral)
  show ?thesis unfolding round_binary64_def u
    by (simp add: round_half_even_def Let_def)
qed

lemma round_binary64_5: "round_binary64 5 = 5"
proof -
  have "binary64_ulp 5 = 2 powr (of_int 2 - 52)"
    by (rule binary64_ulp_eq) simp_all
  then have u: "binary64_ulp 5 = 1 / 2 ^ 50" by (simp add: powr_neg_numeral)
  show ?thesis unfolding round_binary64_def u
    by (simp add: round_half_even_def Let_def)
qed

lemma round_binary64_10_3: "round_binary64 (10 / 3) = 7505999378950827 / 2251799813685248"
proof -
  have "binary64_ulp (10 / 3) = 2 powr (of_int 1 - 52)"
    by (rule binary64_ulp_eq) simp_all
  then have u: "binary64_ulp (10 / 3) = 1 / 2 ^ 51" by (simp add: powr_neg_numeral)
  show ?thesis unfolding round_binary64_def u
    by (simp add: round_half_even_def Let_def)
qed

lemma float_truediv_10_2: "float_truediv 10 2 = Inr 5"
proof -
  have "float_truediv 10 2 = Inr (round_binary64 (10 / round_binary64 (of_int 2)))"
    by (rule float_truediv_in_range) (simp_all add: float_int_limit_def)
  then show ?thesis by (simp add: round_binary64_2 round_binary64_5)
qed

lemma float_truediv_10_3: "float_truediv 10 3 = Inr (7505999378950827 / 2251799813685248)"
proof -
  have "float_truediv 10 3 = Inr (round_binary64 (10 / round_binary64 (of_int 3)))"
    by (rule float_truediv_in_range) (simp_all add: float_int_limit_def)
  then show ?thesis by (simp add: round_binary64_3 round_binary64_10_3)
qed

subsection \<open>The counter\<close>

lemma update_inference_count_eq:
  "update_inference_count c self =
     (if num_inferences self + c = 0 then
        (Inr (), self\<lparr>num_inferences := num_inferences self + c, average_latency := 0\<rparr>)
      else if float_int_limit \<le> \<bar>num_inferences self + c\<bar> then
        (Inl int_too_large, self\<lparr>num_inferences := num_inferences self + c\<rparr>)
      else
        (Inr (),
         self\<lparr>num_inferences := num_inferences self + c,
              average_latency :=
                round_binary64
                  (total_inference_time self /
                   round_binary64 (of_int (num_inferences self + c)))\<rparr>))"
  by (simp add: update_inference_count_def Let_def float_truediv_overflow
        float_truediv_in_range)

lemma update_inference_count_huge:
  "update_inference_count (10 ^ 400) timed_model =
     (Inl int_too_large, timed_model\<lparr>num_inferences := 10 ^ 400\<rparr>)"
  using update_inference_count_eq [where self = timed_model and c = "10 ^ 400"]
  by (simp add: timed_model_def sample_model_def float_int_limit_def)

lemma update_inference_count_accumulators:
  "num_inferences (snd (update_inference_count c self)) = num_inferences self + c \<and>
   total_inference_time (snd (update_inference_count c self)) = total_inference_time self"
  by (simp add: update_inference_count_def Let_def split: sum.split)

text \<open>
  C1, as stated, fails twice. With a count of \<open>10 ^ 400\<close> the counter is written, the
  conversion of the counter to a float raises, and the average latency stays what it
  was. With a total of \<open>10\<close> and a count of \<open>3\<close> the average latency is the binary64 value
  \<^verbatim>\<open>3.3333333333333335\<close>, which is not the quotient \<open>10 / 3\<close>.
\<close>

theorem update_inference_count_raises_or_rounds:
  "update_inference_count (10 ^ 400) timed_model =
     (Inl int_too_large, timed_model\<lparr>num_inferences := 10 ^ 400\<rparr>) \<and>
   average_latency (snd (update_inference_count (10 ^ 400) timed_model)) = 0 \<and>
   average_latency (snd (update_inference_count 3 timed_model)) =
     7505999378950827 / 2251799813685248 \<and>
   average_latency (snd (update_inference_count 3 timed_model)) \<noteq>
     total_inference_time timed_model / of_int (num_inferences timed_model + 3)"
proof -
  note h = update_inference_count_huge
  have s: "average_latency (timed_model\<lparr>num_inferences := 10 ^ 400\<rparr>) = 0"
    by (simp add: timed_model_def sample_model_def)
  have r: "average_latency (snd (update_inference_count 3 timed_model)) =
     7505999378950827 / 2251799813685248"
    by (simp add: update_inference_count_def Let_def timed_model_def sample_model_def
          float_truediv_10_3)
  have q: "total_inference_time timed_model / of_int (num_inferences timed_model + 3) = 10 / 3"
    by (simp add: timed_model_def sample_model_def)
  have n: "(7505999378950827 / 2251799813685248 :: real) \<noteq> 10 / 3" by simp
  from s have s': "average_latency (snd (update_inference_count (10 ^ 400) timed_model)) = 0"
    unfolding h by simp
  from r q n have "average_latency (snd (update_inference_count 3 timed_model)) \<noteq>
     total_inference_time timed_model / of_int (num_inferences timed_model + 3)"
    by simp
  with h s' r show ?thesis by blast
qed

text \<open>
  C1, amended. From a state with total time \<open>T\<close> and \<open>n\<close> inferences,
  \<open>update_inference_count c\<close> sets the counter to \<open>n + c\<close>. When \<open>n + c = 0\<close> it sets the
  average latency to \<open>0\<close>. Otherwise, when \<open>n + c\<close> converts to a float, it sets the
  average latency to the binary64 quotient of \<open>T\<close> by \<open>n + c\<close>: the quotient of \<open>T\<close> by the
  converted counter, rounded to the nearest binary64 value. When \<open>n + c\<close> is too large to
  convert, of magnitude \<open>2 ^ 1024 - 2 ^ 970\<close> or more, the call raises \<^verbatim>\<open>OverflowError\<close>
  with the counter written and the average latency as it was.
\<close>

theorem update_inference_count_outcome:
  "update_inference_count c self =
     (if num_inferences self + c = 0 then
        (Inr (), self\<lparr>num_inferences := num_inferences self + c, average_latency := 0\<rparr>)
      else if float_int_limit \<le> \<bar>num_inferences self + c\<bar> then
        (Inl int_too_large, self\<lparr>num_inferences := num_inferences self + c\<rparr>)
      else
        (Inr (),
         self\<lparr>num_inferences := num_inferences self + c,
              average_latency :=
                round_binary64
                  (total_inference_time self /
                   round_binary64 (of_int (num_inferences self + c)))\<rparr>))"
  by (rule update_inference_count_eq)

theorem update_inference_count_outcome_witness:
  "update_inference_count 2 timed_model =
     (Inr (), timed_model\<lparr>num_inferences := 2, average_latency := 5\<rparr>) \<and>
   update_inference_count 0 timed_model =
     (Inr (), timed_model\<lparr>num_inferences := 0, average_latency := 0\<rparr>)"
proof -
  have n: "num_inferences timed_model = 0" and t: "total_inference_time timed_model = 10"
    by (simp_all add: timed_model_def sample_model_def)
  have l: "\<not> float_int_limit \<le> \<bar>2\<bar>" by (simp add: float_int_limit_def)
  have "update_inference_count 2 timed_model =
     (Inr (), timed_model\<lparr>num_inferences := 2, average_latency := 5\<rparr>)"
    using update_inference_count_outcome [where self = timed_model and c = 2] l
    by (simp add: n t round_binary64_2 round_binary64_5)
  moreover have "update_inference_count 0 timed_model =
     (Inr (), timed_model\<lparr>num_inferences := 0, average_latency := 0\<rparr>)"
    using update_inference_count_outcome [where self = timed_model and c = 0] by (simp add: n)
  ultimately show ?thesis by simp
qed

subsection \<open>The scoped timer\<close>



subsection \<open>The statistics\<close>

lemma nonneg_stats_apply_update:
  "nonneg_stats self \<Longrightarrow> admissible u \<Longrightarrow> nonneg_stats (apply_update self u)"
  by (cases u)
     (simp_all add: nonneg_stats_def track_inference_time_finally_def
        update_inference_count_accumulators)

lemma nonneg_stats_apply_updates:
  "nonneg_stats self \<Longrightarrow> list_all admissible us \<Longrightarrow> nonneg_stats (apply_updates self us)"
  unfolding apply_updates_def
  by (induction us arbitrary: self) (simp_all add: nonneg_stats_apply_update)

lemma BaseModel_init_stats:
  "BaseModel_init m d p log0 = (log1, Inr self) \<Longrightarrow>
     num_inferences self = 0 \<and> total_inference_time self = 0 \<and> average_latency self = 0"
  by (auto simp add: BaseModel_init_def Let_def split: option.splits)

lemma sample_init:
  "BaseModel_init ''m1'' ''cpu'' ''float16'' [] =
     ([''Model: m1'', ''Device: cpu'', ''Dtype: float16''], Inr sample_model)"
  by (simp add: BaseModel_init_def Let_def map_of_dtype_map sample_model_def logger_info_def)

text \<open>
  C9. A constructed instance has counter \<open>0\<close> and total time \<open>0\<close>, and after any sequence
  of timed regions and counter updates both are still non-negative, as long as every
  count is positive (the performance counter being monotonic). The other methods of
  the class do not write the statistics.
\<close>

theorem statistics_start_at_zero_stay_nonnegative:
  assumes "BaseModel_init m d p log0 = (log1, Inr self)" and "list_all admissible us"
  shows "num_inferences self = 0 \<and> total_inference_time self = 0 \<and>
         0 \<le> num_inferences (apply_updates self us) \<and>
         0 \<le> total_inference_time (apply_updates self us)"
proof -
  from assms(1) have z: "num_inferences self = 0 \<and> total_inference_time self = 0"
    by (simp add: BaseModel_init_stats)
  then have "nonneg_stats self" by (simp add: nonneg_stats_def)
  with assms(2) have "nonneg_stats (apply_updates self us)"
    by (simp add: nonneg_stats_apply_updates)
  with z show ?thesis by (simp add: nonneg_stats_def)
qed

theorem statistics_start_at_zero_stay_nonnegative_witness:
  "BaseModel_init ''m1'' ''cpu'' ''float16'' [] =
     ([''Model: m1'', ''Device: cpu'', ''Dtype: float16''], Inr sample_model) \<and>
   list_all admissible [TimedRegionClosed 0 (1 / 100), CountUpdated 2] \<and>
   num_inferences sample_model = 0 \<and> total_inference_time sample_model = 0 \<and>
   num_inferences
     (apply_updates sample_model [TimedRegionClosed 0 (1 / 100), CountUpdated 2]) = 2 \<and>
   total_inference_time
     (apply_updates sample_model [TimedRegionClosed 0 (1 / 100), CountUpdated 2]) = 10 \<and>
   average_latency
     (apply_updates sample_model [TimedRegionClosed 0 (1 / 100), CountUpdated 2]) = 5 \<and>
   (0::int) \<le> 2 \<and> (0::real) \<le> 10"
proof -
  have a: "list_all admissible [TimedRegionClosed 0 (1 / 100), CountUpdated 2]" by simp
  have n: "num_inferences
      (apply_updates sample_model [TimedRegionClosed 0 (1 / 100), CountUpdated 2]) = 2"
    by (simp add: apply_updates_def update_inference_count_def track_inference_time_finally_def
          sample_model_def Let_def float_truediv_10_2)
  have t: "total_inference_time
      (apply_updates sample_model [TimedRegionClosed 0 (1 / 100), CountUpdated 2]) = 10"
    by (simp add: apply_updates_def update_inference_count_def track_inference_time_finally_def
          sample_model_def Let_def float_truediv_10_2)
  have l: "average_latency
      (apply_updates sample_model [TimedRegionClosed 0 (1 / 100), CountUpdated 2]) = 5"
    by (simp add: apply_updates_def update_inference_count_def track_inference_time_finally_def
          sample_model_def Let_def float_truediv_10_2)
  show ?thesis
    using statistics_start_at_zero_stay_nonnegative [OF sample_init a] sample_init a n t l
    by simp
qed




subsection \<open>Loading images\<close>

lemma parse_image_non_string:
  "\<not> is_str v \<Longrightarrow> parse_image io v = Inl (ValueError not_a_string_message)"
  by (cases v) simp_all

lemma parse_images_loop_Inr:
  "parse_images_loop io xs acc = Inr images \<Longrightarrow>
     \<exists>new. images = acc @ new \<and> map (parse_image io) xs = map Inr new"
proof (induction xs arbitrary: acc)
  case Nil
  then show ?case by simp
next
  case (Cons x xs)
  from Cons.prems obtain img where l: "parse_image io x = Inr img"
    and rest: "parse_images_loop io xs (acc @ [img]) = Inr images"
    by (auto split: sum.splits)
  from Cons.IH [OF rest] obtain new where
    "images = (acc @ [img]) @ new" and "map (parse_image io) xs = map Inr new"
    by blast
  with l have "images = acc @ (img # new) \<and> map (parse_image io) (x # xs) = map Inr (img # new)"
    by simp
  then show ?case by blast
qed

lemma parse_images_loop_first_failure:
  "\<forall>z\<in>set pre. \<exists>img. parse_image io z = Inr img \<Longrightarrow> parse_image io y = Inl e \<Longrightarrow>
     parse_images_loop io (pre @ y # rest) acc = Inl e"
proof (induction pre arbitrary: acc)
  case Nil
  then show ?case by simp
next
  case (Cons z pre)
  from Cons.prems(1) obtain img where "parse_image io z = Inr img" by auto
  moreover have "parse_images_loop io (pre @ y # rest) (acc @ [img]) = Inl e"
    using Cons.IH Cons.prems by simp
  ultimately show ?case by simp
qed

lemma first_failing_element:
  assumes "x \<in> set xs" and "parse_image io x = Inl e0"
  shows "\<exists>pre y rest e. xs = pre @ y # rest \<and>
           (\<forall>z\<in>set pre. \<exists>img. parse_image io z = Inr img) \<and> parse_image io y = Inl e"
proof -
  from assms have "\<exists>x\<in>set xs. \<exists>e. parse_image io x = Inl e" by blast
  then obtain pre y rest where xs: "xs = pre @ y # rest"
    and y: "\<exists>e. parse_image io y = Inl e"
    and pre: "\<forall>z\<in>set pre. \<not> (\<exists>e. parse_image io z = Inl e)"
    using split_list_first_prop [of xs "\<lambda>z. \<exists>e. parse_image io z = Inl e"] by blast
  from pre have "\<forall>z\<in>set pre. \<exists>img. parse_image io z = Inr img"
    by (metis sum.exhaust)
  with xs y show ?thesis by blast
qed

lemma fails_with_first_failure:
  assumes "x \<in> set (as_list images)" and "parse_image io x = Inl e0"
  shows "\<exists>pre y rest e. as_list images = pre @ y # rest \<and>
           (\<forall>z\<in>set pre. \<exists>img. parse_image io z = Inr img) \<and>
           parse_image io y = Inl e \<and> parse_images io images = Inl e"
proof -
  from first_failing_element [OF assms] obtain pre y rest e where
    xs: "as_list images = pre @ y # rest"
    and pre: "\<forall>z\<in>set pre. \<exists>img. parse_image io z = Inr img"
    and y: "parse_image io y = Inl e"
    by blast
  from pre y have "parse_images_loop io (pre @ y # rest) [] = Inl e"
    by (rule parse_images_loop_first_failure)
  with xs have "parse_images io images = Inl e" by (simp add: parse_images_def)
  with xs pre y show ?thesis by blast
qed

lemma fails_with_own_error:
  assumes "as_list images = pre @ x # rest"
    and "\<forall>z\<in>set pre. \<exists>img. parse_image io z = Inr img"
    and "parse_image io x = Inl e"
  shows "parse_images io images = Inl e"
  using parse_images_loop_first_failure [OF assms(2,3)] assms(1)
  by (simp add: parse_images_def)

lemma load_image_missing_file:
  assumes "\<not> startswith path [''http://'', ''https://'']"
    and "Image_open io path = Inl (FileNotFoundError f)"
  shows "load_image io path =
           Inl (ValueError_handling (''Local file not found: '' @ path) (FileNotFoundError f))"
  using assms by (simp add: load_image_def open_local_def)

text \<open>
  C5. When \<open>parse_images\<close> succeeds on a list of string references, it returns as many
  images as there are references, and the image at each position is the one loaded from
  the reference at that position, by URL or from a local path as the reference says.
\<close>

theorem parse_images_same_length_same_order:
  assumes "parse_images io (PyList (map PyStr refs)) = Inr images"
  shows "length images = length refs \<and>
         (\<forall>i<length refs. load_image io (refs ! i) = Inr (images ! i))"
proof -
  from assms have "parse_images_loop io (map PyStr refs) [] = Inr images"
    by (simp add: parse_images_def)
  then obtain new where "images = [] @ new"
    and "map (parse_image io) (map PyStr refs) = map Inr new"
    by (blast dest: parse_images_loop_Inr)
  then have m: "map (load_image io) refs = map Inr images" by (simp add: comp_def)
  then have len: "length images = length refs"
    by (metis length_map)
  moreover have "\<forall>i<length refs. load_image io (refs ! i) = Inr (images ! i)"
  proof (intro allI impI)
    fix i assume i: "i < length refs"
    then have "map (load_image io) refs ! i = map Inr images ! i" using m by simp
    with i len show "load_image io (refs ! i) = Inr (images ! i)" by simp
  qed
  ultimately show ?thesis by blast
qed

lemma sample_load_url:
  "load_image sample_io ''https://h/b.png'' = Inr ''RGB image of b-bytes''"
  by (simp add: load_image_def startswith_def open_url_def sample_io_def)

lemma sample_load_local:
  "load_image sample_io ''a.jpg'' = Inr ''RGB image of a-bytes''"
  by (simp add: load_image_def startswith_def open_local_def sample_io_def sample_files_def)

lemma sample_load_down:
  "load_image sample_io ''http://down/x.png'' = Inl (OtherException ''ConnectionError'')"
  by (simp add: load_image_def startswith_def open_url_def sample_io_def)

theorem parse_images_same_length_same_order_witness:
  "parse_images sample_io (PyList (map PyStr [''https://h/b.png'', ''a.jpg''])) =
     Inr [''RGB image of b-bytes'', ''RGB image of a-bytes''] \<and>
   length [''RGB image of b-bytes'', ''RGB image of a-bytes''] =
     length [''https://h/b.png'', ''a.jpg''] \<and>
   load_image sample_io ([''https://h/b.png'', ''a.jpg''] ! 0) =
     Inr ([''RGB image of b-bytes'', ''RGB image of a-bytes''] ! 0) \<and>
   load_image sample_io ([''https://h/b.png'', ''a.jpg''] ! 1) =
     Inr ([''RGB image of b-bytes'', ''RGB image of a-bytes''] ! 1)"
proof -
  have p: "parse_images sample_io (PyList (map PyStr [''https://h/b.png'', ''a.jpg''])) =
     Inr [''RGB image of b-bytes'', ''RGB image of a-bytes'']"
    by (simp add: parse_images_def sample_load_url sample_load_local)
  note t = parse_images_same_length_same_order [OF p]
  from t have q: "\<forall>i<length [''https://h/b.png'', ''a.jpg''].
      load_image sample_io ([''https://h/b.png'', ''a.jpg''] ! i) =
        Inr ([''RGB image of b-bytes'', ''RGB image of a-bytes''] ! i)"
    by (rule conjunct2)
  from q [rule_format, of 0]
  have q0: "load_image sample_io ([''https://h/b.png'', ''a.jpg''] ! 0) =
        Inr ([''RGB image of b-bytes'', ''RGB image of a-bytes''] ! 0)"
    by simp
  from q [rule_format, of 1]
  have q1: "load_image sample_io ([''https://h/b.png'', ''a.jpg''] ! 1) =
        Inr ([''RGB image of b-bytes'', ''RGB image of a-bytes''] ! 1)"
    by simp
  from t have "length [''RGB image of b-bytes'', ''RGB image of a-bytes''] =
     length [''https://h/b.png'', ''a.jpg'']"
    by (rule conjunct1)
  with p q0 q1 show ?thesis by blast
qed

text \<open>
  C6. A single string reference and the one-element list holding it give the same
  result: the error of loading the reference, or the one-element list of its image.
\<close>

theorem parse_images_single_reference:
  "parse_images io (PyStr s) = parse_images io (PyList [PyStr s]) \<and>
   parse_images io (PyStr s) =
     (case load_image io s of Inl e \<Rightarrow> Inl e | Inr img \<Rightarrow> Inr [img])"
  by (simp add: parse_images_def split: sum.split)

theorem parse_images_single_reference_witness:
  "parse_images sample_io (PyStr ''a.jpg'') = Inr [''RGB image of a-bytes''] \<and>
   parse_images sample_io (PyList [PyStr ''a.jpg'']) = Inr [''RGB image of a-bytes'']"
proof -
  note t = parse_images_single_reference [of sample_io "''a.jpg''"]
  from t have "parse_images sample_io (PyStr ''a.jpg'') =
      (case load_image sample_io ''a.jpg'' of Inl e \<Rightarrow> Inl e | Inr img \<Rightarrow> Inr [img])"
    by (rule conjunct2)
  then have a: "parse_images sample_io (PyStr ''a.jpg'') = Inr [''RGB image of a-bytes'']"
    by (simp add: sample_load_local)
  from t have "parse_images sample_io (PyStr ''a.jpg'') =
      parse_images sample_io (PyList [PyStr ''a.jpg''])"
    by (rule conjunct1)
  with a show ?thesis by simp
qed

text \<open>
  C7, as stated, fails: with a URL that cannot be fetched before the non-string
  element, the call ends with the exception of the fetch, which is no \<open>ValueError\<close>.
\<close>

theorem parse_images_non_string_after_failed_fetch:
  "\<not> is_str (PyInt 123) \<and>
   parse_images sample_io (PyList [PyStr ''http://down/x.png'', PyInt 123]) =
     Inl (OtherException ''ConnectionError'') \<and>
   \<not> is_ValueError (OtherException ''ConnectionError'')"
  by (simp add: parse_images_def sample_load_down)

text \<open>
  C7, amended. When the input holds an element that is not a string, the call fails,
  with the error of the first element, in input order, that fails; that error is the
  \<open>ValueError\<close> for a non-string input when every element before the non-string element
  loads.
\<close>

theorem parse_images_non_string_fails:
  assumes "x \<in> set (as_list images)" and "\<not> is_str x"
  shows "(\<exists>pre y rest e. as_list images = pre @ y # rest \<and>
            (\<forall>z\<in>set pre. \<exists>img. parse_image io z = Inr img) \<and>
            parse_image io y = Inl e \<and> parse_images io images = Inl e) \<and>
         (\<forall>pre rest. as_list images = pre @ x # rest \<and>
            (\<forall>z\<in>set pre. \<exists>img. parse_image io z = Inr img) \<longrightarrow>
            parse_images io images = Inl (ValueError not_a_string_message))"
proof -
  from assms(2) have x: "parse_image io x = Inl (ValueError not_a_string_message)"
    by (rule parse_image_non_string)
  from assms(1) x have "\<exists>pre y rest e. as_list images = pre @ y # rest \<and>
            (\<forall>z\<in>set pre. \<exists>img. parse_image io z = Inr img) \<and>
            parse_image io y = Inl e \<and> parse_images io images = Inl e"
    by (rule fails_with_first_failure)
  moreover from x have "\<forall>pre rest. as_list images = pre @ x # rest \<and>
            (\<forall>z\<in>set pre. \<exists>img. parse_image io z = Inr img) \<longrightarrow>
            parse_images io images = Inl (ValueError not_a_string_message)"
    by (blast intro: fails_with_own_error)
  ultimately show ?thesis by blast
qed

theorem parse_images_non_string_fails_witness:
  "PyInt 123 \<in> set (as_list (PyList [PyStr ''a.jpg'', PyInt 123, PyStr ''a.jpg''])) \<and>
   \<not> is_str (PyInt 123) \<and>
   parse_image sample_io (PyStr ''a.jpg'') = Inr ''RGB image of a-bytes'' \<and>
   parse_images sample_io (PyList [PyStr ''a.jpg'', PyInt 123, PyStr ''a.jpg'']) =
     Inl (ValueError not_a_string_message)"
proof -
  have a: "PyInt 123 \<in> set (as_list (PyList [PyStr ''a.jpg'', PyInt 123, PyStr ''a.jpg'']))"
    by simp
  have n: "\<not> is_str (PyInt 123)" by simp
  have l: "parse_image sample_io (PyStr ''a.jpg'') = Inr ''RGB image of a-bytes''"
    by (simp add: sample_load_local)
  have d: "as_list (PyList [PyStr ''a.jpg'', PyInt 123, PyStr ''a.jpg'']) =
      [PyStr ''a.jpg''] @ PyInt 123 # [PyStr ''a.jpg'']" by simp
  from l have pre: "\<forall>z\<in>set [PyStr ''a.jpg'']. \<exists>img. parse_image sample_io z = Inr img"
    by simp
  from parse_images_non_string_fails [OF a n, of sample_io] d pre
  have "parse_images sample_io (PyList [PyStr ''a.jpg'', PyInt 123, PyStr ''a.jpg'']) =
     Inl (ValueError not_a_string_message)" by blast
  with a n l show ?thesis by blast
qed

lemma sample_missing:
  "Image_open sample_io ''missing/file.png'' = Inl (FileNotFoundError ''missing/file.png'')"
  by (simp add: sample_io_def sample_files_def through_a_file_def)

lemma sample_load_through_a_file:
  "load_image sample_io ''a.jpg/x.png'' = Inl (OtherException ''NotADirectoryError'')"
  by (simp add: load_image_def startswith_def open_local_def sample_io_def sample_files_def
        through_a_file_def)

text \<open>
  C8, as stated, fails twice. With a URL that cannot be fetched before the missing local
  file, the call ends with the exception of the fetch, which is no \<open>ValueError\<close>. And a
  path that names no file because it goes through the regular file \<^verbatim>\<open>a.jpg\<close> makes the
  opening raise \<^verbatim>\<open>NotADirectoryError\<close>, which the \<^verbatim>\<open>except\<close> clause does not catch: the
  call ends with it, alone in the input as it is.
\<close>

theorem parse_images_missing_file_after_failed_fetch:
  "\<not> startswith ''missing/file.png'' [''http://'', ''https://''] \<and>
   Image_open sample_io ''missing/file.png'' = Inl (FileNotFoundError ''missing/file.png'') \<and>
   parse_images sample_io (PyList [PyStr ''http://down/x.png'', PyStr ''missing/file.png'']) =
     Inl (OtherException ''ConnectionError'') \<and>
   \<not> is_ValueError (OtherException ''ConnectionError'') \<and>
   \<not> startswith ''a.jpg/x.png'' [''http://'', ''https://''] \<and>
   map_of sample_files ''a.jpg/x.png'' = None \<and>
   parse_images sample_io (PyList [PyStr ''a.jpg/x.png'']) =
     Inl (OtherException ''NotADirectoryError'') \<and>
   \<not> is_ValueError (OtherException ''NotADirectoryError'')"
proof -
  have "\<not> startswith ''missing/file.png'' [''http://'', ''https://'']"
    by (simp add: startswith_def)
  moreover have "parse_images sample_io
      (PyList [PyStr ''http://down/x.png'', PyStr ''missing/file.png'']) =
     Inl (OtherException ''ConnectionError'')"
    by (simp add: parse_images_def sample_load_down)
  moreover have "\<not> startswith ''a.jpg/x.png'' [''http://'', ''https://'']"
    by (simp add: startswith_def)
  moreover have "map_of sample_files ''a.jpg/x.png'' = None"
    by (simp add: sample_files_def)
  moreover have "parse_images sample_io (PyList [PyStr ''a.jpg/x.png'']) =
     Inl (OtherException ''NotADirectoryError'')"
    by (simp add: parse_images_def sample_load_through_a_file)
  ultimately show ?thesis using sample_missing by simp
qed

text \<open>
  C8, amended. When the input holds a string that is no http(s) URL and whose opening
  as a local path raises \<^verbatim>\<open>FileNotFoundError\<close>, the call fails, with the error of the first
  element, in input order, that fails. When every element before this one loads, that
  error is the \<open>ValueError\<close> that wraps and reports the original cause: its message is
  \<^verbatim>\<open>Local file not found:\<close> and the path, and its context is the \<^verbatim>\<open>FileNotFoundError\<close>.
\<close>

theorem parse_images_missing_file_fails:
  assumes "PyStr path \<in> set (as_list images)"
    and "\<not> startswith path [''http://'', ''https://'']"
    and "Image_open io path = Inl (FileNotFoundError f)"
  shows "(\<exists>pre y rest e. as_list images = pre @ y # rest \<and>
            (\<forall>z\<in>set pre. \<exists>img. parse_image io z = Inr img) \<and>
            parse_image io y = Inl e \<and> parse_images io images = Inl e) \<and>
         (\<forall>pre rest. as_list images = pre @ PyStr path # rest \<and>
            (\<forall>z\<in>set pre. \<exists>img. parse_image io z = Inr img) \<longrightarrow>
            parse_images io images =
              Inl (ValueError_handling (''Local file not found: '' @ path)
                     (FileNotFoundError f)))"
proof -
  from assms(2,3)
  have x: "parse_image io (PyStr path) =
      Inl (ValueError_handling (''Local file not found: '' @ path) (FileNotFoundError f))"
    by (simp add: load_image_missing_file)
  from assms(1) x have "\<exists>pre y rest e. as_list images = pre @ y # rest \<and>
            (\<forall>z\<in>set pre. \<exists>img. parse_image io z = Inr img) \<and>
            parse_image io y = Inl e \<and> parse_images io images = Inl e"
    by (rule fails_with_first_failure)
  moreover from x have "\<forall>pre rest. as_list images = pre @ PyStr path # rest \<and>
            (\<forall>z\<in>set pre. \<exists>img. parse_image io z = Inr img) \<longrightarrow>
            parse_images io images =
              Inl (ValueError_handling (''Local file not found: '' @ path)
                     (FileNotFoundError f))"
    by (blast intro: fails_with_own_error)
  ultimately show ?thesis by blast
qed

theorem parse_images_missing_file_fails_witness:
  "PyStr ''missing/file.png'' \<in> set (as_list (PyList [PyStr ''a.jpg'', PyStr ''missing/file.png''])) \<and>
   \<not> startswith ''missing/file.png'' [''http://'', ''https://''] \<and>
   Image_open sample_io ''missing/file.png'' = Inl (FileNotFoundError ''missing/file.png'') \<and>
   parse_image sample_io (PyStr ''a.jpg'') = Inr ''RGB image of a-bytes'' \<and>
   parse_images sample_io (PyList [PyStr ''a.jpg'', PyStr ''missing/file.png'']) =
     Inl (ValueError_handling ''Local file not found: missing/file.png''
            (FileNotFoundError ''missing/file.png'')) \<and>
   is_ValueError (ValueError_handling ''Local file not found: missing/file.png''
            (FileNotFoundError ''missing/file.png''))"
proof -
  have a: "PyStr ''missing/file.png'' \<in>
      set (as_list (PyList [PyStr ''a.jpg'', PyStr ''missing/file.png'']))" by simp
  have u: "\<not> startswith ''missing/file.png'' [''http://'', ''https://'']"
    by (simp add: startswith_def)
  note m = sample_missing
  have l: "parse_image sample_io (PyStr ''a.jpg'') = Inr ''RGB image of a-bytes''"
    by (simp add: sample_load_local)
  have d: "as_list (PyList [PyStr ''a.jpg'', PyStr ''missing/file.png'']) =
      [PyStr ''a.jpg''] @ PyStr ''missing/file.png'' # []" by simp
  from l have pre: "\<forall>z\<in>set [PyStr ''a.jpg'']. \<exists>img. parse_image sample_io z = Inr img"
    by simp
  from parse_images_missing_file_fails [OF a u m] d pre
  have "parse_images sample_io (PyList [PyStr ''a.jpg'', PyStr ''missing/file.png'']) =
     Inl (ValueError_handling (''Local file not found: '' @ ''missing/file.png'')
            (FileNotFoundError ''missing/file.png''))" by blast
  then have "parse_images sample_io (PyList [PyStr ''a.jpg'', PyStr ''missing/file.png'']) =
     Inl (ValueError_handling ''Local file not found: missing/file.png''
            (FileNotFoundError ''missing/file.png''))" by simp
  with a u m l show ?thesis by simp
qed

end
